theory Spec2Isabelle
  imports Complex_Main
begin

section \<open>Shared session state (state/verilog\_state.py)\<close>

text \<open>
  Modelled from the spec: the result of the port analyser
  (slm\_agent/hdl/port\_analyzer.py, which is not among the sources), with the four
  fields its contract names. The workflow nodes store the result and never look inside.
\<close>

record port_result =
  all_ports_used :: bool
  unused_inputs :: "string list"
  unused_outputs :: "string list"
  feedback :: string

text \<open>Result dictionaries of the specialist agents, with the keys their methods return.\<close>

record gen_result =
  gen_code :: string
  gen_success :: bool
  gen_method :: string

record val_result =
  val_valid :: bool
  val_issues :: "string list"
  val_tier_achieved :: int
  val_port_analysis :: "port_result option"

record test_result =
  test_passed :: bool
  test_errors :: "string option"
  test_tier_achieved :: int
  test_backend :: "string option"

record ana_result =
  ana_category :: string
  ana_suggestions :: "string list"
  ana_priority :: string

record error_entry =
  err_category :: string
  err_suggestions :: "string list"

text \<open>
  \<open>VerilogState\<close>, field by field. Python integers are unbounded (\<open>int\<close>); the two
  timestamps are floats in the source and are only ever stored, never computed with, by
  the workflow, so they are kept as reals.
\<close>

record state =
  task_description :: string
  context_files :: "string \<rightharpoonup> string"
  target_file :: string
  current_code :: "string option"
  code_history :: "string list"
  best_code :: "string option"
  structure_valid :: bool
  port_analysis :: "port_result option"
  test_results :: "test_result option"
  validation_cache :: "string \<rightharpoonup> string"
  current_errors :: "string option"
  error_category :: "string option"
  error_history :: "error_entry list"
  consecutive_failures :: int
  agent_scratchpad :: "string list"
  last_agent :: string
  next_action :: string
  planner_reasoning :: "string list"
  agent_invocations :: int
  max_invocations :: int
  code_refinements :: int
  planner_calls :: int
  specialist_calls :: int
  current_tier :: int
  target_tier :: int
  tier_achievements :: "int \<rightharpoonup> bool"
  quality_metrics :: "string \<rightharpoonup> string"
  iteration :: int
  success :: bool
  completed :: bool
  timeout :: bool
  budget_exhausted :: bool
  start_time :: real
  execution_time :: real
  final_message :: string

text \<open>\<open>create_initial_state\<close>; the clock reading \<open>time.time()\<close> is the parameter \<open>now\<close>.\<close>

definition create_initial_state ::
  "string \<Rightarrow> (string \<rightharpoonup> string) \<Rightarrow> string \<Rightarrow> int \<Rightarrow> real \<Rightarrow> state" where
  "create_initial_state task ctx target max_inv now =
     \<lparr> task_description = task, context_files = ctx, target_file = target,
       current_code = None, code_history = [], best_code = None,
       structure_valid = False, port_analysis = None, test_results = None,
       validation_cache = Map.empty,
       current_errors = None, error_category = None, error_history = [],
       consecutive_failures = 0,
       agent_scratchpad = [], last_agent = [], next_action = ''planner'',
       planner_reasoning = [],
       agent_invocations = 0, max_invocations = max_inv, code_refinements = 0,
       planner_calls = 0, specialist_calls = 0,
       current_tier = 0, target_tier = 3,
       tier_achievements = [1 \<mapsto> False, 2 \<mapsto> False, 3 \<mapsto> False, 4 \<mapsto> False],
       quality_metrics = Map.empty,
       iteration = 0, success = False, completed = False, timeout = False,
       budget_exhausted = False,
       start_time = now, execution_time = 0, final_message = [] \<rparr>"

section \<open>Budget manager (utils/budget\_manager.py)\<close>

text \<open>The manager's only attribute read by these methods is \<open>total_budget\<close>.\<close>

definition get_budget_zone :: "int \<Rightarrow> int \<Rightarrow> string" where
  "get_budget_zone total_budget used =
     (let remaining = total_budget - used in
      if remaining \<ge> 40 then ''GREEN''
      else if remaining \<ge> 20 then ''YELLOW''
      else if remaining \<ge> 10 then ''ORANGE''
      else ''RED'')"

text \<open>\<open>d.get(k, False)\<close> on a dictionary of booleans.\<close>

definition get_flag :: "('k \<rightharpoonup> bool) \<Rightarrow> 'k \<Rightarrow> bool" where
  "get_flag d k = (case d k of None \<Rightarrow> False | Some b \<Rightarrow> b)"

definition should_stop :: "int \<Rightarrow> state \<Rightarrow> bool \<times> string" where
  "should_stop total_budget s =
     (if agent_invocations s \<ge> total_budget then (True, ''Budget exhausted'')
      else if success s \<and> get_flag (tier_achievements s) 3
        then (True, ''Success achieved (Tier 3)'')
      else if consecutive_failures s \<ge> 5 then (True, ''Too many consecutive failures'')
      else if completed s then (True, ''Task completed'')
      else (False, ''Continue''))"

section \<open>Workflow nodes (graph/workflow.py)\<close>

text \<open>
  The agents are external collaborators (a language model, tool processes). Each node
  receives the agent method it calls as a function of the state it is handed; the
  methods read the state and do not write it.
\<close>

type_synonym decision = "string \<rightharpoonup> string"

definition get_str :: "(string \<rightharpoonup> string) \<Rightarrow> string \<Rightarrow> string \<Rightarrow> string" where
  "get_str d k dflt = (case d k of None \<Rightarrow> dflt | Some v \<Rightarrow> v)"

text \<open>\<open>sep.join(xs)\<close>.\<close>

fun py_join :: "string \<Rightarrow> string list \<Rightarrow> string" where
  "py_join sep [] = []"
| "py_join sep [x] = x"
| "py_join sep (x # y # ys) = x @ sep @ py_join sep (y # ys)"

definition planner_node :: "(state \<Rightarrow> decision) \<Rightarrow> state \<Rightarrow> state" where
  "planner_node decide_next_action s =
     (if fst (should_stop (max_invocations s) s)
      then s\<lparr>completed := True, next_action := ''complete''\<rparr>
      else
        let decision = decide_next_action s in
        s\<lparr>next_action := get_str decision ''next_action'' ''complete'',
          planner_reasoning := planner_reasoning s @ [get_str decision ''reasoning'' []],
          agent_invocations := agent_invocations s + 1,
          planner_calls := planner_calls s + 1,
          last_agent := ''planner''\<rparr>)"

text \<open>\<open>not state["best_code"]\<close>: unset or the empty string.\<close>

definition falsy :: "string option \<Rightarrow> bool" where
  "falsy c = (case c of None \<Rightarrow> True | Some x \<Rightarrow> x = [])"

definition len_opt :: "string option \<Rightarrow> nat" where
  "len_opt c = (case c of None \<Rightarrow> 0 | Some x \<Rightarrow> length x)"

definition code_gen_node :: "(state \<Rightarrow> gen_result) \<Rightarrow> state \<Rightarrow> state" where
  "code_gen_node generate_code s =
     (let result = generate_code s;
          s1 = (if gen_success result then
                  let s2 = s\<lparr>current_code := Some (gen_code result),
                             code_history := code_history s @ [gen_code result],
                             code_refinements := code_refinements s + 1\<rparr>;
                      s3 = (if falsy (best_code s2)
                               \<or> length (gen_code result) > len_opt (best_code s2)
                            then s2\<lparr>best_code := Some (gen_code result)\<rparr> else s2)
                  in s3\<lparr>consecutive_failures := 0\<rparr>
                else s\<lparr>consecutive_failures := consecutive_failures s + 1\<rparr>)
      in s1\<lparr>agent_invocations := agent_invocations s1 + 1,
            specialist_calls := specialist_calls s1 + 1,
            last_agent := ''code_gen'',
            iteration := iteration s1 + 1\<rparr>)"

text \<open>The tier promotion both the validator node and the tester node perform.\<close>

definition promote_tier :: "int \<Rightarrow> state \<Rightarrow> state" where
  "promote_tier tier s =
     (if tier > current_tier s
      then s\<lparr>current_tier := tier, tier_achievements := (tier_achievements s)(tier \<mapsto> True)\<rparr>
      else s)"

definition validator_node :: "(state \<Rightarrow> val_result) \<Rightarrow> state \<Rightarrow> state" where
  "validator_node validate s =
     (let result = validate s;
          s1 = s\<lparr>structure_valid := val_valid result,
                  port_analysis := val_port_analysis result\<rparr>;
          s2 = promote_tier (val_tier_achieved result) s1;
          s3 = (if \<not> val_valid result
                then s2\<lparr>current_errors := Some (py_join [CHR 0x0A] (val_issues result))\<rparr>
                else s2)
      in s3\<lparr>agent_invocations := agent_invocations s3 + 1,
            specialist_calls := specialist_calls s3 + 1,
            last_agent := ''validator''\<rparr>)"

text \<open>Of \<open>ReActConfig\<close> the workflow reads \<open>exit_on_tier3\<close> and nothing else.\<close>

record config =
  max_agent_invocations :: int
  max_code_refinements :: int
  max_consecutive_failures :: int
  max_time_seconds :: int
  tier1_compile :: int
  tier2_complete :: int
  tier3_tested :: int
  tier4_optimal :: int
  exit_on_tier3 :: bool
  exit_on_first_success :: bool
  allow_partial_success :: bool

definition default_config :: config where
  "default_config =
     \<lparr> max_agent_invocations = 50, max_code_refinements = 10,
       max_consecutive_failures = 5, max_time_seconds = 900,
       tier1_compile = 10, tier2_complete = 25, tier3_tested = 40, tier4_optimal = 50,
       exit_on_tier3 = True, exit_on_first_success = False, allow_partial_success = True \<rparr>"

definition tester_node :: "config \<Rightarrow> (state \<Rightarrow> test_result) \<Rightarrow> state \<Rightarrow> state" where
  "tester_node cfg test s =
     (let result = test s;
          s1 = s\<lparr>test_results := Some result\<rparr>;
          passed = test_passed result;
          tier = test_tier_achieved result;
          s2 = promote_tier tier s1;
          s3 = (if passed then
                  let s4 = s2\<lparr>success := True\<rparr>
                  in (if exit_on_tier3 cfg \<and> tier \<ge> 3 then s4\<lparr>completed := True\<rparr> else s4)
                else s2\<lparr>current_errors := test_errors result,
                        consecutive_failures := consecutive_failures s2 + 1\<rparr>)
      in s3\<lparr>agent_invocations := agent_invocations s3 + 1,
            specialist_calls := specialist_calls s3 + 1,
            last_agent := ''tester''\<rparr>)"

definition analyzer_node :: "(state \<Rightarrow> ana_result) \<Rightarrow> state \<Rightarrow> state" where
  "analyzer_node analyze s =
     (let result = analyze s in
      s\<lparr>error_category := Some (ana_category result),
        error_history := error_history s
           @ [\<lparr>err_category = ana_category result, err_suggestions = ana_suggestions result\<rparr>],
        agent_invocations := agent_invocations s + 1,
        specialist_calls := specialist_calls s + 1,
        last_agent := ''analyzer''\<rparr>)"

text \<open>LangGraph's \<open>END\<close> is the node name \<open>__end__\<close>.\<close>

definition END :: string where
  "END = ''__end__''"

definition route_from_planner :: "state \<Rightarrow> string" where
  "route_from_planner s =
     (let na = next_action s in
      if completed s \<or> na = ''complete'' then END
      else if agent_invocations s \<ge> max_invocations s then END
      else if na \<in> set [''code_gen'', ''validator'', ''tester'', ''analyzer''] then na
      else END)"

text \<open>
  The agents dictionary, and one node of the graph run by name: what the compiled graph
  does when it executes the node registered under that name.
\<close>

record agents =
  ag_planner :: "state \<Rightarrow> decision"
  ag_code_gen :: "state \<Rightarrow> gen_result"
  ag_validator :: "state \<Rightarrow> val_result"
  ag_tester :: "state \<Rightarrow> test_result"
  ag_analyzer :: "state \<Rightarrow> ana_result"

datatype node = Planner | CodeGen | Validator | Tester | Analyzer

fun run_node :: "config \<Rightarrow> agents \<Rightarrow> node \<Rightarrow> state \<Rightarrow> state" where
  "run_node cfg ag Planner s = planner_node (ag_planner ag) s"
| "run_node cfg ag CodeGen s = code_gen_node (ag_code_gen ag) s"
| "run_node cfg ag Validator s = validator_node (ag_validator ag) s"
| "run_node cfg ag Tester s = tester_node cfg (ag_tester ag) s"
| "run_node cfg ag Analyzer s = analyzer_node (ag_analyzer ag) s"


text \<open>
  A stretch of a session: node executions one after the other, each with the agents as
  they answer at that moment.
\<close>

fun run_nodes :: "config \<Rightarrow> (agents \<times> node) list \<Rightarrow> state \<Rightarrow> state" where
  "run_nodes cfg [] s = s"
| "run_nodes cfg ((ag, n) # rest) s = run_nodes cfg rest (run_node cfg ag n s)"

text \<open>
  The compiled graph: the planner node is the entry point, \<open>route_from_planner\<close> names
  the node that runs next, and every specialist hands control back to the planner. One
  turn of that loop either ends the session (\<open>Inl\<close>, with the final state) or returns
  to the planner (\<open>Inr\<close>).
\<close>

definition turn :: "config \<Rightarrow> agents \<Rightarrow> state \<Rightarrow> state + state" where
  "turn cfg ag s =
     (let s1 = planner_node (ag_planner ag) s; nxt = route_from_planner s1 in
      if nxt = ''code_gen'' then Inr (code_gen_node (ag_code_gen ag) s1)
      else if nxt = ''validator'' then Inr (validator_node (ag_validator ag) s1)
      else if nxt = ''tester'' then Inr (tester_node cfg (ag_tester ag) s1)
      else if nxt = ''analyzer'' then Inr (analyzer_node (ag_analyzer ag) s1)
      else Inl s1)"


section \<open>Planner agent (agents/planner\_agent.py, agents/base\_agent.py)\<close>

text \<open>
  A call into an external collaborator either returns a value or raises an exception,
  kept here by its message.
\<close>

datatype 'a outcome = Returned 'a | Raised string

text \<open>\<open>s.find(c)\<close> and \<open>s.rfind(c)\<close> for a character that occurs in \<open>s\<close>, and the
  slice \<open>s[i:j]\<close> for indices that are not negative.\<close>

definition py_find :: "string \<Rightarrow> char \<Rightarrow> nat" where
  "py_find s c = length (takeWhile (\<lambda>x. x \<noteq> c) s)"

definition py_rfind :: "string \<Rightarrow> char \<Rightarrow> nat" where
  "py_rfind s c = length s - 1 - length (takeWhile (\<lambda>x. x \<noteq> c) (rev s))"

definition py_slice :: "string \<Rightarrow> nat \<Rightarrow> nat \<Rightarrow> string" where
  "py_slice s i j = drop i (take j s)"

text \<open>
  What \<open>json.loads\<close> does with a text: it decodes it, or raises \<open>JSONDecodeError\<close>,
  or raises another exception (\<open>RecursionError\<close> on text nested too deep, a plain
  \<open>ValueError\<close> on an integer with too many digits), kept here by its message. The
  decoder is a parameter of the model. The text handed to it begins with an opening
  brace, so whatever decodes is an object; its values are strings in the decision the
  planner documents.
\<close>

datatype decoded = Decoded decision | DecodeError | DecoderRaised string

text \<open>
  \<open>parse_json_output\<close>. Its handler catches \<open>JSONDecodeError\<close> and nothing else: any
  other exception of the decoder leaves the method.
\<close>

definition parse_json_output ::
  "(string \<Rightarrow> decoded) \<Rightarrow> string \<Rightarrow> decision option outcome" where
  "parse_json_output json_loads output =
     (if CHR ''{'' \<in> set output \<and> CHR ''}'' \<in> set output then
        let start = py_find output CHR ''{'';
            end = py_rfind output CHR ''}'' + 1;
            json_str = py_slice output start end
        in (case json_loads json_str of
              Decoded d \<Rightarrow> Returned (Some d)
            | DecodeError \<Rightarrow> Returned None
            | DecoderRaised e \<Rightarrow> Raised e)
      else Returned None)"

text \<open>
  \<open>decide_next_action\<close> from its \<open>try\<close> on: \<open>invoked\<close> is what
  \<open>self.executor.invoke(prompt_inputs)\<close> did. The body of the \<open>try\<close> comes first, the
  handler \<open>except Exception\<close> second; the call of \<open>parse_json_output\<close> is inside the
  \<open>try\<close>.
\<close>

definition default_decision :: decision where
  "default_decision =
     [''next_action'' \<mapsto> ''code_gen'', ''reasoning'' \<mapsto> ''Default action due to parsing error'']"

definition error_decision :: "string \<Rightarrow> decision" where
  "error_decision e =
     [''next_action'' \<mapsto> ''complete'', ''reasoning'' \<mapsto> ''Error occurred: '' @ e]"

definition decide_body ::
  "(string \<Rightarrow> decoded) \<Rightarrow> (string \<rightharpoonup> string) outcome \<Rightarrow> decision outcome" where
  "decide_body json_loads invoked =
     (case invoked of
        Raised e \<Rightarrow> Raised e
      | Returned result \<Rightarrow>
          let output = get_str result ''output'' [] in
          (case parse_json_output json_loads output of
             Raised e \<Rightarrow> Raised e
           | Returned decision \<Rightarrow>
               (case decision of
                  None \<Rightarrow> Returned default_decision
                | Some d \<Rightarrow>
                    if dom d \<noteq> {} \<and> ''next_action'' \<in> dom d then Returned d
                    else Returned default_decision)))"

definition decide_next_action ::
  "(string \<Rightarrow> decoded) \<Rightarrow> (string \<rightharpoonup> string) outcome \<Rightarrow> decision outcome" where
  "decide_next_action json_loads invoked =
     (case decide_body json_loads invoked of
        Raised e \<Rightarrow> Returned (error_decision e)
      | Returned d \<Rightarrow> Returned d)"



section \<open>Error categories (slm\_agent/testing/test\_runner.py)\<close>

text \<open>
  Texts are taken to be ASCII. \<open>str.lower\<close> maps the letters A to Z to a to z and leaves
  every other character alone.
\<close>

definition lower_char :: "char \<Rightarrow> char" where
  "lower_char c =
     (case map_of (zip ''ABCDEFGHIJKLMNOPQRSTUVWXYZ'' ''abcdefghijklmnopqrstuvwxyz'') c of
        None \<Rightarrow> c | Some d \<Rightarrow> d)"

definition lower :: "string \<Rightarrow> string" where
  "lower s = map lower_char s"

fun starts_with :: "string \<Rightarrow> string \<Rightarrow> bool" where
  "starts_with [] s = True"
| "starts_with (k # ks) [] = False"
| "starts_with (k # ks) (c # cs) = (k = c \<and> starts_with ks cs)"

text \<open>\<open>kw in s\<close> on strings.\<close>

fun contains :: "string \<Rightarrow> string \<Rightarrow> bool" where
  "contains kw [] = (kw = [])"
| "contains kw (c # cs) = (starts_with kw (c # cs) \<or> contains kw cs)"

text \<open>\<open>any(kw in s for kw in kws)\<close>.\<close>

definition any_in :: "string list \<Rightarrow> string \<Rightarrow> bool" where
  "any_in kws s = list_ex (\<lambda>kw. contains kw s) kws"

definition categorize_errors :: "string \<Rightarrow> string" where
  "categorize_errors errors =
     (let errors_lower = lower errors in
      if any_in [''syntax error'', ''parse error'', ''unexpected'', ''expected''] errors_lower
        then ''syntax''
      else if any_in [''undeclared'', ''undefined'', ''not declared''] errors_lower
        then ''undeclared''
      else if any_in [''type mismatch'', ''incompatible types''] errors_lower
        then ''type''
      else if any_in [''width'', ''bit width'', ''size mismatch''] errors_lower
        then ''width''
      else if contains ''latch'' errors_lower then ''latch''
      else if any_in [''timing'', ''setup'', ''hold''] errors_lower then ''timing''
      else ''general'')"

section \<open>Response parser (slm\_agent/llm/response\_parser.py)\<close>






text \<open>
  The ways a repetition of class \<open>c\<close> can take a prefix of the text, shortest first:
  what it takes, and what it leaves.
\<close>

fun splits :: "(char \<Rightarrow> bool) \<Rightarrow> string \<Rightarrow> (string \<times> string) list" where
  "splits c [] = [([], [])]"
| "splits c (x # xs) =
     ([], x # xs) # (if c x then map (\<lambda>(p, r). (x # p, r)) (splits c xs) else [])"











text \<open>
  Concrete sessions for evaluating the nodes: a fresh state with the default cap, and
  agents that give fixed answers.
\<close>

definition fresh :: state where
  "fresh = create_initial_state ''2-bit counter'' Map.empty ''/code/rtl/top.sv'' 50 0"

definition answering ::
  "decision \<Rightarrow> gen_result \<Rightarrow> val_result \<Rightarrow> test_result \<Rightarrow> ana_result \<Rightarrow> agents" where
  "answering d g v t a =
     \<lparr> ag_planner = (\<lambda>_. d), ag_code_gen = (\<lambda>_. g), ag_validator = (\<lambda>_. v),
       ag_tester = (\<lambda>_. t), ag_analyzer = (\<lambda>_. a) \<rparr>"

definition gen_failed :: gen_result where
  "gen_failed = \<lparr> gen_code = [], gen_success = False, gen_method = ''failed'' \<rparr>"

definition gen_ok :: "string \<Rightarrow> gen_result" where
  "gen_ok c = \<lparr> gen_code = c, gen_success = True, gen_method = ''fallback_extraction'' \<rparr>"

definition val_tier :: "int \<Rightarrow> val_result" where
  "val_tier t = \<lparr> val_valid = (t \<ge> 2), val_issues = [], val_tier_achieved = t,
                  val_port_analysis = None \<rparr>"

definition test_ok :: test_result where
  "test_ok = \<lparr> test_passed = True, test_errors = None, test_tier_achieved = 3,
               test_backend = Some ''comprehensive'' \<rparr>"

definition test_failed :: "string \<Rightarrow> test_result" where
  "test_failed e = \<lparr> test_passed = False, test_errors = Some e, test_tier_achieved = 1,
                     test_backend = Some ''comprehensive'' \<rparr>"

definition ana_none :: ana_result where
  "ana_none = \<lparr> ana_category = ''none'', ana_suggestions = [], ana_priority = ''low'' \<rparr>"

definition go :: "string \<Rightarrow> decision" where
  "go a = [''next_action'' \<mapsto> a, ''reasoning'' \<mapsto> ''next'']"

section \<open>Stop conditions and budget zones\<close>

text \<open>
  C1. \<open>should_stop\<close> tries its conditions in a fixed order and the first one that holds
  decides the answer: budget exhausted, then success with tier 3 achieved, then five or
  more consecutive failures, then the completed flag; otherwise it answers
  (False, Continue). The five reason strings are pairwise different.
\<close>

theorem should_stop_order:
  "(agent_invocations s \<ge> cap \<longrightarrow> should_stop cap s = (True, ''Budget exhausted''))
   \<and> (\<not> agent_invocations s \<ge> cap \<and> success s \<and> get_flag (tier_achievements s) 3
        \<longrightarrow> should_stop cap s = (True, ''Success achieved (Tier 3)''))
   \<and> (\<not> agent_invocations s \<ge> cap \<and> \<not> (success s \<and> get_flag (tier_achievements s) 3)
        \<and> consecutive_failures s \<ge> 5
        \<longrightarrow> should_stop cap s = (True, ''Too many consecutive failures''))
   \<and> (\<not> agent_invocations s \<ge> cap \<and> \<not> (success s \<and> get_flag (tier_achievements s) 3)
        \<and> \<not> consecutive_failures s \<ge> 5 \<and> completed s
        \<longrightarrow> should_stop cap s = (True, ''Task completed''))
   \<and> (\<not> agent_invocations s \<ge> cap \<and> \<not> (success s \<and> get_flag (tier_achievements s) 3)
        \<and> \<not> consecutive_failures s \<ge> 5 \<and> \<not> completed s
        \<longrightarrow> should_stop cap s = (False, ''Continue''))
   \<and> distinct [''Budget exhausted'', ''Success achieved (Tier 3)'',
        ''Too many consecutive failures'', ''Task completed'', ''Continue'']"
  by (simp add: should_stop_def)

theorem should_stop_order_witness:
  "should_stop 50 ((create_initial_state ''t'' Map.empty ''f'' 50 0)\<lparr>agent_invocations := 50\<rparr>)
     = (True, ''Budget exhausted'')
   \<and> should_stop 50 ((create_initial_state ''t'' Map.empty ''f'' 50 0)
        \<lparr>success := True, tier_achievements := [3 \<mapsto> True], consecutive_failures := 7,
         completed := True\<rparr>)
     = (True, ''Success achieved (Tier 3)'')
   \<and> should_stop 50 ((create_initial_state ''t'' Map.empty ''f'' 50 0)
        \<lparr>consecutive_failures := 5, completed := True\<rparr>)
     = (True, ''Too many consecutive failures'')
   \<and> should_stop 50 ((create_initial_state ''t'' Map.empty ''f'' 50 0)\<lparr>completed := True\<rparr>)
     = (True, ''Task completed'')
   \<and> should_stop 50 (create_initial_state ''t'' Map.empty ''f'' 50 0) = (False, ''Continue'')"
  using
    should_stop_order [of 50 "(create_initial_state ''t'' Map.empty ''f'' 50 0)\<lparr>agent_invocations := 50\<rparr>"]
    should_stop_order [of 50 "(create_initial_state ''t'' Map.empty ''f'' 50 0)
        \<lparr>success := True, tier_achievements := [3 \<mapsto> True], consecutive_failures := 7,
         completed := True\<rparr>"]
    should_stop_order [of 50 "(create_initial_state ''t'' Map.empty ''f'' 50 0)
        \<lparr>consecutive_failures := 5, completed := True\<rparr>"]
    should_stop_order [of 50 "(create_initial_state ''t'' Map.empty ''f'' 50 0)\<lparr>completed := True\<rparr>"]
    should_stop_order [of 50 "create_initial_state ''t'' Map.empty ''f'' 50 0"]
  by (simp add: create_initial_state_def get_flag_def)

text \<open>
  C2. The zone is read off remaining = cap - used: GREEN from 40 up, YELLOW from 20,
  ORANGE from 10, RED below. With a cap of 50 that gives GREEN at 10 used, ORANGE at 35
  (15 remain), RED at 42 (8 remain) and RED at 48 (2 remain).
\<close>

theorem budget_zone_boundaries:
  "get_budget_zone 50 10 = ''GREEN'' \<and> get_budget_zone 50 35 = ''ORANGE''
   \<and> get_budget_zone 50 42 = ''RED'' \<and> get_budget_zone 50 48 = ''RED''
   \<and> (get_budget_zone cap used = ''GREEN'') = (cap - used \<ge> 40)
   \<and> (get_budget_zone cap used = ''YELLOW'') = (20 \<le> cap - used \<and> cap - used < 40)
   \<and> (get_budget_zone cap used = ''ORANGE'') = (10 \<le> cap - used \<and> cap - used < 20)
   \<and> (get_budget_zone cap used = ''RED'') = (cap - used < 10)"
  by (simp add: get_budget_zone_def Let_def)

text \<open>
  At 35 used of 50 the zone is ORANGE, not YELLOW, and at 42 used it is RED, not ORANGE.
\<close>

theorem budget_zone_counterexample:
  "get_budget_zone 50 35 \<noteq> ''YELLOW'' \<and> get_budget_zone 50 42 \<noteq> ''ORANGE''"
  by (simp add: get_budget_zone_def Let_def)

section \<open>The planner's stop branch\<close>

text \<open>
  C10. When \<open>should_stop\<close> fires at the start of a planner step, \<open>planner_node\<close> sets
  completed to true and next\_action to complete and changes no other field: the
  invocation count, the planner and specialist call counters and the reasoning trace
  stay as they were. The planning policy is not consulted: the result is the same for
  every policy.
\<close>

theorem planner_node_stop_frame:
  "fst (should_stop (max_invocations s) s) \<Longrightarrow>
     planner_node decide s = s\<lparr>completed := True, next_action := ''complete''\<rparr>
     \<and> planner_node decide s = planner_node decide' s
     \<and> agent_invocations (planner_node decide s) = agent_invocations s
     \<and> planner_calls (planner_node decide s) = planner_calls s
     \<and> specialist_calls (planner_node decide s) = specialist_calls s
     \<and> planner_reasoning (planner_node decide s) = planner_reasoning s
     \<and> completed (planner_node decide s)
     \<and> next_action (planner_node decide s) = ''complete''"
  by (simp add: planner_node_def)

theorem planner_node_stop_frame_witness:
  "fst (should_stop 50 ((create_initial_state ''t'' Map.empty ''f'' 50 0)\<lparr>agent_invocations := 50\<rparr>))
   \<and> planner_node (\<lambda>_. [''next_action'' \<mapsto> ''tester''])
        ((create_initial_state ''t'' Map.empty ''f'' 50 0)\<lparr>agent_invocations := 50\<rparr>)
      = (create_initial_state ''t'' Map.empty ''f'' 50 0)
          \<lparr>agent_invocations := 50, completed := True, next_action := ''complete''\<rparr>"
proof -
  let ?s = "(create_initial_state ''t'' Map.empty ''f'' 50 0)\<lparr>agent_invocations := 50\<rparr>"
  have h: "fst (should_stop (max_invocations ?s) ?s)"
    by (simp add: should_stop_def create_initial_state_def)
  from planner_node_stop_frame [OF h] h show ?thesis
    by (simp add: create_initial_state_def)
qed

section \<open>Quality tiers\<close>

lemma promote_tier_flags:
  "tier_achievements s k = Some True \<Longrightarrow> tier_achievements (promote_tier t s) k = Some True"
  by (simp add: promote_tier_def)

lemma promote_tier_current: "current_tier s \<le> current_tier (promote_tier t s)"
  by (simp add: promote_tier_def)

lemma promote_tier_raise:
  "t > current_tier s \<Longrightarrow>
     current_tier (promote_tier t s) = t \<and> tier_achievements (promote_tier t s) t = Some True"
  by (simp add: promote_tier_def)

lemma run_node_flags:
  assumes "tier_achievements s k = Some True"
  shows "tier_achievements (run_node cfg ag n s) k = Some True"
proof (cases n)
  case Planner
  with assms show ?thesis by (simp add: planner_node_def Let_def)
next
  case CodeGen
  with assms show ?thesis by (simp add: code_gen_node_def Let_def)
next
  case Validator
  with assms show ?thesis by (simp add: validator_node_def Let_def promote_tier_def)
next
  case Tester
  with assms show ?thesis by (simp add: tester_node_def Let_def promote_tier_def)
next
  case Analyzer
  with assms show ?thesis by (simp add: analyzer_node_def Let_def)
qed

lemma run_node_current_tier: "current_tier s \<le> current_tier (run_node cfg ag n s)"
proof (cases n)
  case Planner
  then show ?thesis by (simp add: planner_node_def Let_def)
next
  case CodeGen
  then show ?thesis by (simp add: code_gen_node_def Let_def)
next
  case Validator
  then show ?thesis by (simp add: validator_node_def Let_def promote_tier_def)
next
  case Tester
  then show ?thesis by (simp add: tester_node_def Let_def promote_tier_def)
next
  case Analyzer
  then show ?thesis by (simp add: analyzer_node_def Let_def)
qed

lemma run_nodes_tiers:
  "(tier_achievements s k = Some True \<longrightarrow> tier_achievements (run_nodes cfg steps s) k = Some True)
   \<and> current_tier s \<le> current_tier (run_nodes cfg steps s)"
proof (induction steps arbitrary: s)
  case Nil
  show ?case by simp
next
  case (Cons st steps)
  obtain ag n where st: "st = (ag, n)" by (cases st)
  from Cons [of "run_node cfg ag n s"] run_node_flags [of s k cfg ag n]
    run_node_current_tier [of s cfg ag n] st
  show ?case by auto
qed

lemma validator_node_promotes:
  "val_tier_achieved (validate s) > current_tier s \<Longrightarrow>
     current_tier (validator_node validate s) = val_tier_achieved (validate s)
     \<and> tier_achievements (validator_node validate s) (val_tier_achieved (validate s)) = Some True"
  by (simp add: validator_node_def Let_def promote_tier_def)

lemma tester_node_promotes:
  "test_tier_achieved (test s) > current_tier s \<Longrightarrow>
     current_tier (tester_node cfg test s) = test_tier_achieved (test s)
     \<and> tier_achievements (tester_node cfg test s) (test_tier_achieved (test s)) = Some True"
  by (simp add: tester_node_def Let_def promote_tier_def)

text \<open>
  C4. Over any stretch of a session, whatever the agents answer, a tier flag that is
  true stays true and the current tier does not decrease. After a validator step, and in
  the same way after a tester step, a reported tier above the current one becomes the
  current tier and its flag is set.
\<close>

theorem tiers_monotone:
  "(tier_achievements s k = Some True \<longrightarrow>
      tier_achievements (run_nodes cfg steps s) k = Some True)
   \<and> current_tier s \<le> current_tier (run_nodes cfg steps s)
   \<and> (val_tier_achieved (validate s) > current_tier s \<longrightarrow>
        current_tier (validator_node validate s) = val_tier_achieved (validate s)
        \<and> tier_achievements (validator_node validate s) (val_tier_achieved (validate s))
            = Some True)
   \<and> (test_tier_achieved (test s) > current_tier s \<longrightarrow>
        current_tier (tester_node cfg test s) = test_tier_achieved (test s)
        \<and> tier_achievements (tester_node cfg test s) (test_tier_achieved (test s))
            = Some True)"
  using run_nodes_tiers [of s k cfg steps] validator_node_promotes [of s validate]
    tester_node_promotes [of s test cfg]
  by blast

theorem tiers_monotone_witness:
  "tier_achievements (fresh\<lparr>current_tier := 1, tier_achievements := [1 \<mapsto> True]\<rparr>) 1 = Some True
   \<and> tier_achievements
        (run_nodes default_config
          [(answering (go ''validator'') gen_failed (val_tier 2) test_ok ana_none, Validator),
           (answering (go ''tester'') gen_failed (val_tier 0) (test_failed ''e'') ana_none, Tester)]
          (fresh\<lparr>current_tier := 1, tier_achievements := [1 \<mapsto> True]\<rparr>)) 1 = Some True
   \<and> val_tier_achieved (val_tier 2) > current_tier (fresh\<lparr>current_tier := 1, tier_achievements := [1 \<mapsto> True]\<rparr>)
   \<and> current_tier (validator_node (\<lambda>_. val_tier 2)
        (fresh\<lparr>current_tier := 1, tier_achievements := [1 \<mapsto> True]\<rparr>)) = 2
   \<and> tier_achievements (validator_node (\<lambda>_. val_tier 2)
        (fresh\<lparr>current_tier := 1, tier_achievements := [1 \<mapsto> True]\<rparr>)) 2 = Some True
   \<and> test_tier_achieved test_ok > current_tier (fresh\<lparr>current_tier := 1, tier_achievements := [1 \<mapsto> True]\<rparr>)
   \<and> current_tier (tester_node default_config (\<lambda>_. test_ok)
        (fresh\<lparr>current_tier := 1, tier_achievements := [1 \<mapsto> True]\<rparr>)) = 3
   \<and> tier_achievements (tester_node default_config (\<lambda>_. test_ok)
        (fresh\<lparr>current_tier := 1, tier_achievements := [1 \<mapsto> True]\<rparr>)) 3 = Some True"
proof -
  let ?s = "fresh\<lparr>current_tier := 1, tier_achievements := [1 \<mapsto> True]\<rparr>"
  have a: "tier_achievements ?s 1 = Some True" by simp
  have b: "val_tier_achieved (val_tier 2) > current_tier ?s" by (simp add: val_tier_def)
  have c: "test_tier_achieved test_ok > current_tier ?s" by (simp add: test_ok_def)
  from tiers_monotone [of ?s 1 default_config
      "[(answering (go ''validator'') gen_failed (val_tier 2) test_ok ana_none, Validator),
        (answering (go ''tester'') gen_failed (val_tier 0) (test_failed ''e'') ana_none, Tester)]"
      "\<lambda>_. val_tier 2" "\<lambda>_. test_ok"] a b c
  show ?thesis by (simp add: val_tier_def test_ok_def)
qed

section \<open>Candidate code\<close>

lemma code_gen_node_best:
  "best_code (code_gen_node g s) =
     (if gen_success (g s)
         \<and> (falsy (best_code s) \<or> length (gen_code (g s)) > len_opt (best_code s))
      then Some (gen_code (g s)) else best_code s)"
  by (simp add: code_gen_node_def Let_def)

lemma run_node_best:
  "best_code (run_node cfg ag n s) =
     (if n = CodeGen then best_code (code_gen_node (ag_code_gen ag) s) else best_code s)"
proof (cases n)
  case Planner
  then show ?thesis by (simp add: planner_node_def Let_def)
next
  case CodeGen
  then show ?thesis by simp
next
  case Validator
  then show ?thesis by (simp add: validator_node_def Let_def promote_tier_def)
next
  case Tester
  then show ?thesis by (simp add: tester_node_def Let_def promote_tier_def)
next
  case Analyzer
  then show ?thesis by (simp add: analyzer_node_def Let_def)
qed

lemma run_node_best_kept:
  "(best_code s \<noteq> None \<longrightarrow> best_code (run_node cfg ag n s) \<noteq> None)
   \<and> len_opt (best_code s) \<le> len_opt (best_code (run_node cfg ag n s))"
  by (auto simp add: run_node_best code_gen_node_best falsy_def len_opt_def
      split: option.splits)

lemma run_nodes_best_kept:
  "(best_code s \<noteq> None \<longrightarrow> best_code (run_nodes cfg steps s) \<noteq> None)
   \<and> len_opt (best_code s) \<le> len_opt (best_code (run_nodes cfg steps s))"
proof (induction steps arbitrary: s)
  case Nil
  show ?case by simp
next
  case (Cons st steps)
  obtain ag n where st: "st = (ag, n)" by (cases st)
  from Cons [of "run_node cfg ag n s"] run_node_best_kept [of s cfg ag n] st
  show ?case by auto
qed

lemma run_node_best_replaced:
  "best_code s = Some b \<Longrightarrow> best_code (run_node cfg ag n s) \<noteq> Some b \<Longrightarrow>
     n = CodeGen \<and> gen_success (ag_code_gen ag s)
     \<and> best_code (run_node cfg ag n s) = Some (gen_code (ag_code_gen ag s))
     \<and> length b < length (gen_code (ag_code_gen ag s))"
  by (auto simp add: run_node_best code_gen_node_best falsy_def len_opt_def
      split: if_splits)

lemma code_gen_node_current:
  "gen_success (g s) \<Longrightarrow>
     current_code (code_gen_node g s) = Some (gen_code (g s))
     \<and> code_history (code_gen_node g s) = code_history s @ [gen_code (g s)]"
  by (simp add: code_gen_node_def Let_def)

text \<open>
  C9. Over any stretch of a session, once the best candidate is set it stays set and its
  length does not decrease; a single step changes it only to a strictly longer newly
  generated candidate. Every successful generation makes the new candidate, exactly as
  generated, the current code (and appends it to the history).
\<close>

theorem best_code_monotone:
  "(best_code s \<noteq> None \<longrightarrow> best_code (run_nodes cfg steps s) \<noteq> None)
   \<and> len_opt (best_code s) \<le> len_opt (best_code (run_nodes cfg steps s))
   \<and> (best_code s = Some b \<and> best_code (run_node cfg ag n s) \<noteq> Some b \<longrightarrow>
        n = CodeGen \<and> gen_success (ag_code_gen ag s)
        \<and> best_code (run_node cfg ag n s) = Some (gen_code (ag_code_gen ag s))
        \<and> length b < length (gen_code (ag_code_gen ag s)))
   \<and> (gen_success (g s) \<longrightarrow>
        current_code (code_gen_node g s) = Some (gen_code (g s))
        \<and> code_history (code_gen_node g s) = code_history s @ [gen_code (g s)])"
  using run_nodes_best_kept [of s cfg steps] run_node_best_replaced [of s b cfg ag n]
    code_gen_node_current [of g s]
  by blast

theorem best_code_monotone_witness:
  "best_code (fresh\<lparr>best_code := Some ''ab'', current_code := Some ''a''\<rparr>) \<noteq> None
   \<and> best_code (run_nodes default_config
        [(answering (go ''code_gen'') (gen_ok ''x'') (val_tier 0) test_ok ana_none, CodeGen),
         (answering (go ''code_gen'') gen_failed (val_tier 0) test_ok ana_none, CodeGen)]
        (fresh\<lparr>best_code := Some ''ab'', current_code := Some ''a''\<rparr>)) = Some ''ab''
   \<and> best_code (run_node default_config
        (answering (go ''code_gen'') (gen_ok ''abcd'') (val_tier 0) test_ok ana_none) CodeGen
        (fresh\<lparr>best_code := Some ''ab'', current_code := Some ''a''\<rparr>)) = Some ''abcd''
   \<and> gen_success (gen_ok ''x'')
   \<and> current_code (code_gen_node (\<lambda>_. gen_ok ''x'')
        (fresh\<lparr>best_code := Some ''ab'', current_code := Some ''a''\<rparr>)) = Some ''x''"
proof -
  let ?s = "fresh\<lparr>best_code := Some ''ab'', current_code := Some ''a''\<rparr>"
  let ?A = "answering (go ''code_gen'') (gen_ok ''abcd'') (val_tier 0) test_ok ana_none"
  have a: "best_code ?s \<noteq> None" by simp
  have b: "best_code ?s = Some ''ab'' \<and> best_code (run_node default_config ?A CodeGen ?s) \<noteq> Some ''ab''"
    by (simp add: code_gen_node_best answering_def gen_ok_def falsy_def len_opt_def)
  have c: "gen_success (gen_ok ''x'')" by (simp add: gen_ok_def)
  from best_code_monotone [of ?s default_config
      "[(answering (go ''code_gen'') (gen_ok ''x'') (val_tier 0) test_ok ana_none, CodeGen),
        (answering (go ''code_gen'') gen_failed (val_tier 0) test_ok ana_none, CodeGen)]"
      "''ab''" ?A CodeGen "\<lambda>_. gen_ok ''x''"] a b c
  show ?thesis
    by (simp add: code_gen_node_best answering_def gen_ok_def gen_failed_def falsy_def len_opt_def)
qed

section \<open>Consecutive failures\<close>








section \<open>Session time\<close>

text \<open>
  C3. The control loop checks the invocation budget and no wall-clock time limit.
  \<open>should_stop\<close> fires exactly when the invocation cap is reached, or success is set with
  tier 3 achieved, or there are five consecutive failures, or completed is set. Neither it
  nor \<open>route_from_planner\<close> reads the start time, the execution time or the timeout flag,
  no node writes them, and a turn of the loop is the same whatever \<open>max_time_seconds\<close>
  is. So a session that has run longer than \<open>max_time_seconds\<close> goes on while
  invocations remain.
\<close>

theorem stop_ignores_time:
  "fst (should_stop cap s) =
     (agent_invocations s \<ge> cap \<or> (success s \<and> get_flag (tier_achievements s) 3)
      \<or> consecutive_failures s \<ge> 5 \<or> completed s)
   \<and> should_stop cap (s\<lparr>start_time := t0, execution_time := e, timeout := b\<rparr>)
       = should_stop cap s
   \<and> route_from_planner (s\<lparr>start_time := t0, execution_time := e, timeout := b\<rparr>)
       = route_from_planner s
   \<and> turn (cfg\<lparr>max_time_seconds := m\<rparr>) ag s = turn cfg ag s
   \<and> start_time (run_nodes cfg steps s) = start_time s
   \<and> execution_time (run_nodes cfg steps s) = execution_time s
   \<and> timeout (run_nodes cfg steps s) = timeout s"
proof -
  have a: "fst (should_stop cap s) =
     (agent_invocations s \<ge> cap \<or> (success s \<and> get_flag (tier_achievements s) 3)
      \<or> consecutive_failures s \<ge> 5 \<or> completed s)"
    by (auto simp add: should_stop_def)
  have b: "should_stop cap (s\<lparr>start_time := t0, execution_time := e, timeout := b\<rparr>)
       = should_stop cap s"
    by (simp add: should_stop_def)
  have c: "route_from_planner (s\<lparr>start_time := t0, execution_time := e, timeout := b\<rparr>)
       = route_from_planner s"
    by (simp add: route_from_planner_def Let_def)
  have tn: "tester_node (cfg\<lparr>max_time_seconds := m\<rparr>) test s1 = tester_node cfg test s1"
    for test s1
    by (simp add: tester_node_def Let_def)
  have d: "turn (cfg\<lparr>max_time_seconds := m\<rparr>) ag s = turn cfg ag s"
    by (simp add: turn_def tn Let_def)
  have one: "start_time (run_node cfg ag n s) = start_time s
      \<and> execution_time (run_node cfg ag n s) = execution_time s
      \<and> timeout (run_node cfg ag n s) = timeout s" for ag n s
  proof (cases n)
    case Planner
    then show ?thesis by (simp add: planner_node_def Let_def)
  next
    case CodeGen
    then show ?thesis by (simp add: code_gen_node_def Let_def)
  next
    case Validator
    then show ?thesis by (simp add: validator_node_def Let_def promote_tier_def)
  next
    case Tester
    then show ?thesis by (simp add: tester_node_def Let_def promote_tier_def)
  next
    case Analyzer
    then show ?thesis by (simp add: analyzer_node_def Let_def)
  qed
  have f: "start_time (run_nodes cfg steps s) = start_time s
      \<and> execution_time (run_nodes cfg steps s) = execution_time s
      \<and> timeout (run_nodes cfg steps s) = timeout s"
  proof (induction steps arbitrary: s)
    case Nil
    show ?case by simp
  next
    case (Cons st steps)
    obtain ag n where st: "st = (ag, n)" by (cases st)
    from Cons [of "run_node cfg ag n s"] one [of ag n s] st show ?case by simp
  qed
  from a b c d f show ?thesis by simp
qed

text \<open>
  A session started at time 0 with the default limit of 900 seconds, looked at when the
  clock reads 1000 and with its own execution time and timeout flag saying as much: the
  stop check says continue and the turn runs the code generator.
\<close>

theorem session_timeout_counterexample:
  "(1000::real) - start_time (fresh\<lparr>execution_time := 1000, timeout := True\<rparr>)
      > real_of_int (max_time_seconds default_config)
   \<and> execution_time (fresh\<lparr>execution_time := 1000, timeout := True\<rparr>)
      > real_of_int (max_time_seconds default_config)
   \<and> should_stop (max_invocations (fresh\<lparr>execution_time := 1000, timeout := True\<rparr>))
        (fresh\<lparr>execution_time := 1000, timeout := True\<rparr>) = (False, ''Continue'')
   \<and> route_from_planner (planner_node (\<lambda>_. go ''code_gen'')
        (fresh\<lparr>execution_time := 1000, timeout := True\<rparr>)) = ''code_gen''
   \<and> turn default_config (answering (go ''code_gen'') gen_failed (val_tier 0) test_ok ana_none)
        (fresh\<lparr>execution_time := 1000, timeout := True\<rparr>)
      = Inr (fresh\<lparr>execution_time := 1000, timeout := True, consecutive_failures := 1,
               last_agent := ''code_gen'', next_action := ''code_gen'',
               planner_reasoning := [''next''], agent_invocations := 2, planner_calls := 1,
               specialist_calls := 1, iteration := 1\<rparr>)"
  by (simp add: fresh_def create_initial_state_def default_config_def should_stop_def
      get_flag_def planner_node_def route_from_planner_def turn_def code_gen_node_def
      answering_def go_def gen_failed_def get_str_def Let_def END_def)

section \<open>Planner decisions\<close>








section \<open>Error categories\<close>

lemma starts_with_append: "starts_with k (k @ b)"
  by (induction k) simp_all

lemma starts_with_contains: "starts_with k s \<Longrightarrow> contains k s"
proof (cases s)
  case Nil
  assume "starts_with k s"
  with Nil show ?thesis by (cases k) simp_all
next
  case (Cons c cs)
  assume "starts_with k s"
  with Cons show ?thesis by simp
qed

lemma contains_append: "contains k (a @ k @ b)"
proof (induction a)
  case Nil
  show ?case using starts_with_contains [OF starts_with_append [of k b]] by simp
next
  case (Cons x a)
  then show ?case by simp
qed

lemma lower_append: "lower (a @ b) = lower a @ lower b"
  by (simp add: lower_def)

text \<open>
  C8. \<open>categorize_errors\<close> always answers one of syntax, undeclared, type, width, latch,
  timing, general. It looks for the keywords in the lower-cased text, category by
  category in that order, and the first category with a keyword in the text wins;
  general is the answer when none has one. A text that contains "syntax error", in any
  mix of upper and lower case, is categorized syntax whatever else it contains, an
  undeclared signal included.
\<close>

theorem categorize_errors_priority:
  "categorize_errors e \<in> set [''syntax'', ''undeclared'', ''type'', ''width'', ''latch'',
       ''timing'', ''general'']
   \<and> (any_in [''syntax error'', ''parse error'', ''unexpected'', ''expected''] (lower e)
        \<longrightarrow> categorize_errors e = ''syntax'')
   \<and> (\<not> any_in [''syntax error'', ''parse error'', ''unexpected'', ''expected''] (lower e)
        \<and> any_in [''undeclared'', ''undefined'', ''not declared''] (lower e)
        \<longrightarrow> categorize_errors e = ''undeclared'')
   \<and> (\<not> any_in [''syntax error'', ''parse error'', ''unexpected'', ''expected''] (lower e)
        \<and> \<not> any_in [''undeclared'', ''undefined'', ''not declared''] (lower e)
        \<and> any_in [''type mismatch'', ''incompatible types''] (lower e)
        \<longrightarrow> categorize_errors e = ''type'')
   \<and> (\<not> any_in [''syntax error'', ''parse error'', ''unexpected'', ''expected''] (lower e)
        \<and> \<not> any_in [''undeclared'', ''undefined'', ''not declared''] (lower e)
        \<and> \<not> any_in [''type mismatch'', ''incompatible types''] (lower e)
        \<and> any_in [''width'', ''bit width'', ''size mismatch''] (lower e)
        \<longrightarrow> categorize_errors e = ''width'')
   \<and> (\<not> any_in [''syntax error'', ''parse error'', ''unexpected'', ''expected''] (lower e)
        \<and> \<not> any_in [''undeclared'', ''undefined'', ''not declared''] (lower e)
        \<and> \<not> any_in [''type mismatch'', ''incompatible types''] (lower e)
        \<and> \<not> any_in [''width'', ''bit width'', ''size mismatch''] (lower e)
        \<and> contains ''latch'' (lower e)
        \<longrightarrow> categorize_errors e = ''latch'')
   \<and> (\<not> any_in [''syntax error'', ''parse error'', ''unexpected'', ''expected''] (lower e)
        \<and> \<not> any_in [''undeclared'', ''undefined'', ''not declared''] (lower e)
        \<and> \<not> any_in [''type mismatch'', ''incompatible types''] (lower e)
        \<and> \<not> any_in [''width'', ''bit width'', ''size mismatch''] (lower e)
        \<and> \<not> contains ''latch'' (lower e)
        \<and> any_in [''timing'', ''setup'', ''hold''] (lower e)
        \<longrightarrow> categorize_errors e = ''timing'')
   \<and> (\<not> any_in [''syntax error'', ''parse error'', ''unexpected'', ''expected''] (lower e)
        \<and> \<not> any_in [''undeclared'', ''undefined'', ''not declared''] (lower e)
        \<and> \<not> any_in [''type mismatch'', ''incompatible types''] (lower e)
        \<and> \<not> any_in [''width'', ''bit width'', ''size mismatch''] (lower e)
        \<and> \<not> contains ''latch'' (lower e)
        \<and> \<not> any_in [''timing'', ''setup'', ''hold''] (lower e)
        \<longrightarrow> categorize_errors e = ''general'')
   \<and> (lower u = ''syntax error'' \<longrightarrow> categorize_errors (a @ u @ b) = ''syntax'')"
proof -
  have mem: "categorize_errors e \<in> set [''syntax'', ''undeclared'', ''type'', ''width'',
       ''latch'', ''timing'', ''general'']"
    by (simp add: categorize_errors_def Let_def)
  have syn: "categorize_errors (a @ u @ b) = ''syntax''" if "lower u = ''syntax error''"
  proof -
    from that have "lower (a @ u @ b) = lower a @ ''syntax error'' @ lower b"
      by (simp add: lower_append)
    then have "contains ''syntax error'' (lower (a @ u @ b))"
      by (simp only: contains_append)
    then show ?thesis by (simp add: categorize_errors_def any_in_def Let_def)
  qed
  from mem syn show ?thesis by (simp add: categorize_errors_def Let_def)
qed

theorem categorize_errors_priority_witness:
  "lower ''Syntax Error'' = ''syntax error''
   \<and> categorize_errors (''top.sv:3: '' @ ''Syntax Error'' @ '' near undeclared signal q'')
       = ''syntax''
   \<and> categorize_errors ''top.sv:3: undeclared signal q'' = ''undeclared''
   \<and> categorize_errors ''Type Mismatch in assignment'' = ''type''
   \<and> categorize_errors ''port WIDTH differs'' = ''width''
   \<and> categorize_errors ''inferred Latch for q'' = ''latch''
   \<and> categorize_errors ''hold violation'' = ''timing''
   \<and> categorize_errors ''it broke'' = ''general''"
proof -
  have lc: "lower ''Syntax Error'' = ''syntax error''"
    by (simp add: lower_def lower_char_def)
  have h2: "\<not> any_in [''syntax error'', ''parse error'', ''unexpected'', ''expected'']
        (lower ''top.sv:3: undeclared signal q'')
      \<and> any_in [''undeclared'', ''undefined'', ''not declared'']
        (lower ''top.sv:3: undeclared signal q'')"
    by (simp add: any_in_def lower_def lower_char_def)
  from categorize_errors_priority [of "''top.sv:3: undeclared signal q''"] h2
  have c2: "categorize_errors ''top.sv:3: undeclared signal q'' = ''undeclared''" by blast
  from categorize_errors_priority [of e "''Syntax Error''" "''top.sv:3: ''"
      "'' near undeclared signal q''" for e] lc
  have c1: "categorize_errors (''top.sv:3: '' @ ''Syntax Error'' @ '' near undeclared signal q'')
       = ''syntax''" by blast
  have rest: "categorize_errors ''Type Mismatch in assignment'' = ''type''
   \<and> categorize_errors ''port WIDTH differs'' = ''width''
   \<and> categorize_errors ''inferred Latch for q'' = ''latch''
   \<and> categorize_errors ''hold violation'' = ''timing''
   \<and> categorize_errors ''it broke'' = ''general''"
    by (simp add: categorize_errors_def any_in_def lower_def lower_char_def Let_def)
  from lc c1 c2 rest show ?thesis by blast
qed

section \<open>Code extraction\<close>























end
